theory Spec2Isabelle
  imports Complex_Main
begin

section \<open>Values shared by every variant of the program\<close>

text \<open>
  The repository holds four snapshots of one Go program, each with a function
  \<^verbatim>\<open>objective\<close> and a function \<^verbatim>\<open>main\<close>:
  \<^item> \<^verbatim>\<open>src/main.go\<close> lines 1-133 (error group, \<^verbatim>\<open>exec.Command\<close>, result of
    \<^verbatim>\<open>cmd.Run\<close> discarded);
  \<^item> \<^verbatim>\<open>src/main.go\<close> lines 134-269 (error group, \<^verbatim>\<open>LIBFFM_CLI\<close> override, result
    of \<^verbatim>\<open>cmd.Run\<close> returned);
  \<^item> \<^verbatim>\<open>src/main.go\<close> lines 271-425 and \<^verbatim>\<open>src/unnamed/part_000\<close> (wait group,
    signal listener, \<^verbatim>\<open>exec.CommandContext\<close>); their \<^verbatim>\<open>objective\<close> functions are
    the same text, their \<^verbatim>\<open>main\<close> functions differ in the logger and in the final
    report.

  A Go \<^verbatim>\<open>error\<close> is modelled by its message, \<^verbatim>\<open>nil\<close> by \<open>None\<close>. A
  \<^verbatim>\<open>float64\<close> is modelled by the real number it denotes: the program never computes
  with one, it only passes it on and compares it with zero, and a number read from JSON is
  never an infinity or a NaN. A Go \<^verbatim>\<open>int\<close> is modelled by \<open>int\<close>: the program does no
  arithmetic on the integers it reads.
\<close>

datatype error = Error string

text \<open>\<^verbatim>\<open>fmt.Errorf("failed to read json: %s", err)\<close>\<close>

fun Errorf_read_json :: "error \<Rightarrow> error" where
  "Errorf_read_json (Error msg) = Error (''failed to read json: '' @ msg)"

subsection \<open>Decimal formatting: the verb %d\<close>

definition digit_char :: "nat \<Rightarrow> char" where
  "digit_char d = char_of (48 + d)"

function show_nat :: "nat \<Rightarrow> string" where
  "show_nat n = (if n < 10 then [digit_char n] else show_nat (n div 10) @ [digit_char (n mod 10)])"
  by pat_completeness auto
termination
  by (relation "measure (\<lambda>n. n)") auto

declare show_nat.simps [simp del]

definition Sprintf_d :: "int \<Rightarrow> string" where
  "Sprintf_d i = (if i < 0 then CHR ''-'' # show_nat (nat (- i)) else show_nat (nat i))"

subsection \<open>The evaluator's output file and its decoding\<close>

text \<open>
  \<^verbatim>\<open>encoding/json\<close> belongs to the Go standard library. Its input is modelled after
  tokenising: a file is either not JSON at all or a JSON value. A number literal is kept as
  the two conversions the decoder can ask of it: \<open>JNumber i f\<close> has \<open>i = Some n\<close> when
  the literal is an integer literal in the range of \<^verbatim>\<open>int\<close> (what
  \<^verbatim>\<open>strconv.ParseInt\<close> accepts) and \<open>f = Some r\<close> when it is in the range of
  \<^verbatim>\<open>float64\<close>, \<open>r\<close> being the float it is rounded to.
\<close>

datatype json =
    JNull
  | JBool bool
  | JNumber "int option" "real option"
  | JString string
  | JArray "json list"
  | JObject "(string \<times> json) list"

datatype content = NotJSON | JSON json

text \<open>
  The anonymous struct of \<^verbatim>\<open>objective\<close>:
  \<^verbatim>\<open>
  var result struct {
      BestIteration int     `json:"best_iteration"`
      BestVALoss    float64 `json:"best_va_loss"`
  }
  \<close>
\<close>

record meta =
  BestIteration :: int
  BestVALoss :: real

definition zero_meta :: meta where
  "zero_meta = \<lparr>BestIteration = 0, BestVALoss = 0\<rparr>"

text \<open>
  The decoder matches an object key to a struct field by its tag, exactly or up to the
  case of its letters (ASCII letters here).
\<close>

definition ascii_lower :: "char \<Rightarrow> char" where
  "ascii_lower c =
     (let n = (of_char c :: nat) in if 65 \<le> n \<and> n \<le> 90 then char_of (n + 32) else c)"

definition key_matches :: "string \<Rightarrow> string \<Rightarrow> bool" where
  "key_matches tag k = (map ascii_lower k = map ascii_lower tag)"

text \<open>
  Decoding one value into a field: \<^verbatim>\<open>null\<close> leaves the field as it is, a number
  literal that converts is stored, anything else is a type error and the field is skipped.
\<close>

fun decode_int :: "json \<Rightarrow> int \<Rightarrow> error + int" where
  "decode_int JNull cur = Inr cur"
| "decode_int (JNumber (Some n) f) cur = Inr n"
| "decode_int v cur = Inl (Error ''json: cannot unmarshal value into Go struct field .best_iteration of type int'')"

fun decode_float :: "json \<Rightarrow> real \<Rightarrow> error + real" where
  "decode_float JNull cur = Inr cur"
| "decode_float (JNumber i (Some r)) cur = Inr r"
| "decode_float v cur = Inl (Error ''json: cannot unmarshal value into Go struct field .best_va_loss of type float64'')"

text \<open>
  The decoder walks the object's members in order. It keeps the earliest type error and
  goes on; a key that matches no field is ignored; a key that comes twice overwrites.
\<close>

definition keep_first :: "error option \<Rightarrow> error \<Rightarrow> error option" where
  "keep_first saved e = (case saved of None \<Rightarrow> Some e | Some e0 \<Rightarrow> Some e0)"

fun assign_member :: "meta \<times> error option \<Rightarrow> string \<times> json \<Rightarrow> meta \<times> error option" where
  "assign_member (m, saved) (k, v) =
     (if key_matches ''best_iteration'' k then
        (case decode_int v (BestIteration m) of
           Inr n \<Rightarrow> (m\<lparr>BestIteration := n\<rparr>, saved)
         | Inl e \<Rightarrow> (m, keep_first saved e))
      else if key_matches ''best_va_loss'' k then
        (case decode_float v (BestVALoss m) of
           Inr r \<Rightarrow> (m\<lparr>BestVALoss := r\<rparr>, saved)
         | Inl e \<Rightarrow> (m, keep_first saved e))
      else (m, saved))"

text \<open>
  \<^verbatim>\<open>json.Unmarshal(jsonStr, &result)\<close> on the zero-valued struct: the error, or the
  struct as filled in.
\<close>

fun Unmarshal :: "content \<Rightarrow> error + meta" where
  "Unmarshal NotJSON = Inl (Error ''invalid character looking for beginning of value'')"
| "Unmarshal (JSON JNull) = Inr zero_meta"
| "Unmarshal (JSON (JObject kvs)) =
     (case foldl assign_member (zero_meta, None) kvs of
        (m, None) \<Rightarrow> Inr m
      | (m, Some e) \<Rightarrow> Inl e)"
| "Unmarshal (JSON v) = Inl (Error ''json: cannot unmarshal value into Go value of type struct'')"

section \<open>What objective sees of the world\<close>

text \<open>
  \<^verbatim>\<open>goptuna.Trial\<close> is a library type. The model holds what its methods answer for
  one trial: the sampler's suggestions, the trial number, whether the storage accepts an
  attribute, and the attributes stored so far.
\<close>

record trial =
  SuggestLogUniform :: "string \<Rightarrow> real \<Rightarrow> real \<Rightarrow> error + real"
  SuggestInt :: "string \<Rightarrow> int \<Rightarrow> int \<Rightarrow> error + int"
  Number :: "error + int"
  attr_write :: "string \<Rightarrow> string \<Rightarrow> error option"
  UserAttrs :: "string \<rightharpoonup> string"

definition SetUserAttr :: "string \<Rightarrow> string \<Rightarrow> trial \<Rightarrow> error option \<times> trial" where
  "SetUserAttr k v t =
     (case attr_write t k v of
        None \<Rightarrow> (None, t\<lparr>UserAttrs := (UserAttrs t)(k \<mapsto> v)\<rparr>)
      | Some e \<Rightarrow> (Some e, t))"

text \<open>
  One run of the external evaluator, as the program can observe it: how the process ends
  when it is left alone (its exit status, or that it could not be started), whether the
  trial's context becomes done while it runs, what it prints, and what
  \<^verbatim>\<open>ioutil.ReadFile\<close> finds at a path afterwards.
\<close>

datatype proc_end = Exited nat | NotStarted

record evaluation =
  ended :: proc_end
  ctx_fired :: bool
  stdout_text :: string
  stderr_text :: string
  ReadFile :: "string \<Rightarrow> error + content"

fun exit_error :: "proc_end \<Rightarrow> error option" where
  "exit_error (Exited n) = (if n = 0 then None else Some (Error (''exit status '' @ show_nat n)))"
| "exit_error NotStarted = Some (Error ''exec: executable file not found'')"

text \<open>
  \<^verbatim>\<open>cmd.Run()\<close> of a command made by \<^verbatim>\<open>exec.Command\<close>: the context plays no
  part.
\<close>

definition Run :: "evaluation \<Rightarrow> error option" where
  "Run ev = exit_error (ended ev)"

text \<open>
  \<^verbatim>\<open>cmd.Run()\<close> of a command made by \<^verbatim>\<open>exec.CommandContext(ctx, ...)\<close>: when the
  context becomes done before the process ends by itself, the library kills the process
  and \<^verbatim>\<open>Run\<close> returns an error.
\<close>

definition killed :: "evaluation \<Rightarrow> bool" where
  "killed ev = (ctx_fired ev \<and> ended ev \<noteq> NotStarted)"

definition Run_ctx :: "evaluation \<Rightarrow> error option" where
  "Run_ctx ev = (if killed ev then Some (Error ''signal: killed'') else exit_error (ended ev))"

text \<open>
  The machine: how \<^verbatim>\<open>%f\<close> prints a float, the environment variables
  (\<^verbatim>\<open>os.Getenv\<close> gives the empty string for an unset one) and what starting a command
  line does.
\<close>

record host =
  Sprintf_f :: "real \<Rightarrow> string"
  Getenv :: "string \<Rightarrow> string"
  start_process :: "string list \<Rightarrow> evaluation"

section \<open>objective, as in src/unnamed/part_000 and src/main.go lines 295-355\<close>

definition jsonMetaPath :: "int \<Rightarrow> string" where
  "jsonMetaPath number = ''./data/optuna/ffm-meta-'' @ Sprintf_d number @ ''.json''"

definition command :: "host \<Rightarrow> real \<Rightarrow> real \<Rightarrow> int \<Rightarrow> int \<Rightarrow> string list" where
  "command h lmd eta latent number =
     [''./ffm-train'',
      ''-p'', ''./data/valid2.txt'',
      ''--auto-stop'', ''--auto-stop-threshold'', ''3'',
      ''-l'', Sprintf_f h lmd,
      ''-r'', Sprintf_f h eta,
      ''-k'', Sprintf_d latent,
      ''-t'', ''500'',
      ''--json-meta'', jsonMetaPath number,
      ''./data/train2.txt'']"

text \<open>
  The result of \<^verbatim>\<open>cmd.Run()\<close> is discarded (\<^verbatim>\<open>_ = cmd.Run()\<close>, with the
  comment that ffm-train exits with 1 when it stops early), and so are the results of the
  three calls of \<^verbatim>\<open>trial.SetUserAttr\<close>. The function returns its two results and
  leaves the trial with the attributes it stored.
\<close>

definition objective :: "host \<Rightarrow> trial \<Rightarrow> (real \<times> error option) \<times> trial" where
  "objective h t =
     (case SuggestLogUniform t ''lambda'' (1 / 1000000) 1 of
        Inl err \<Rightarrow> ((- 1, Some err), t)
      | Inr lmd \<Rightarrow>
     (case SuggestLogUniform t ''eta'' (1 / 1000000) 1 of
        Inl err \<Rightarrow> ((- 1, Some err), t)
      | Inr eta \<Rightarrow>
     (case SuggestInt t ''latent'' 1 16 of
        Inl err \<Rightarrow> ((- 1, Some err), t)
      | Inr latent \<Rightarrow>
     (case Number t of
        Inl err \<Rightarrow> ((- 1, Some err), t)
      | Inr number \<Rightarrow>
        let ev = start_process h (command h lmd eta latent number);
            ignored = Run_ctx ev
        in
        case ReadFile ev (jsonMetaPath number) of
          Inl err \<Rightarrow> ((- 1, Some (Errorf_read_json err)), t)
        | Inr jsonStr \<Rightarrow>
       (case Unmarshal jsonStr of
          Inl err \<Rightarrow> ((- 1, Some (Errorf_read_json err)), t)
        | Inr result \<Rightarrow>
          if BestIteration result = 0 \<and> BestVALoss result = 0
          then ((- 1, Some (Error ''failed to open json meta'')), t)
          else
            let t1 = snd (SetUserAttr ''best_iteration'' (Sprintf_d (BestIteration result)) t);
                t2 = snd (SetUserAttr ''stdout'' (stdout_text ev) t1);
                t3 = snd (SetUserAttr ''stderr'' (stderr_text ev) t2)
            in ((BestVALoss result, None), t3))))))"

section \<open>objective, as in src/main.go lines 29-83\<close>

definition getMetaPath :: "int \<Rightarrow> string" where
  "getMetaPath trialNumber = ''./data/optuna/ffm-meta-'' @ Sprintf_d trialNumber @ ''.json''"

definition command_29 :: "host \<Rightarrow> real \<Rightarrow> real \<Rightarrow> int \<Rightarrow> string list" where
  "command_29 h lmd eta number =
     [''./ffm-train'',
      ''-p'', ''./data/valid2.txt'',
      ''--auto-stop'', ''--auto-stop-threshold'', ''3'',
      ''-l'', Sprintf_f h lmd,
      ''-r'', Sprintf_f h eta,
      ''-k'', ''4'',
      ''-t'', ''500'',
      ''--json-meta'', getMetaPath number,
      ''./data/train2.txt'']"

definition objective_29 :: "host \<Rightarrow> trial \<Rightarrow> (real \<times> error option) \<times> trial" where
  "objective_29 h t =
     (case SuggestLogUniform t ''lambda'' (1 / 1000000) 1 of
        Inl err \<Rightarrow> ((- 1, Some err), t)
      | Inr lmd \<Rightarrow>
     (case SuggestLogUniform t ''eta'' (1 / 1000000) 1 of
        Inl err \<Rightarrow> ((- 1, Some err), t)
      | Inr eta \<Rightarrow>
     (case Number t of
        Inl err \<Rightarrow> ((- 1, Some err), t)
      | Inr number \<Rightarrow>
        let ev = start_process h (command_29 h lmd eta number);
            ignored = Run ev
        in
        case ReadFile ev (getMetaPath number) of
          Inl err \<Rightarrow> ((- 1, Some (Errorf_read_json err)), t)
        | Inr jsonStr \<Rightarrow>
       (case Unmarshal jsonStr of
          Inl err \<Rightarrow> ((- 1, Some (Errorf_read_json err)), t)
        | Inr result \<Rightarrow>
          if BestIteration result = 0 \<and> BestVALoss result = 0
          then ((- 1, Some (Error ''failed to open json meta'')), t)
          else
            let t1 = snd (SetUserAttr ''best_iteration'' (Sprintf_d (BestIteration result)) t);
                t2 = snd (SetUserAttr ''stdout'' (stdout_text ev) t1);
                t3 = snd (SetUserAttr ''stderr'' (stderr_text ev) t2)
            in ((BestVALoss result, None), t3)))))"

section \<open>objective, as in src/main.go lines 162-220\<close>

text \<open>
  \<^verbatim>\<open>
  libffm := os.Getenv("LIBFFM_CLI")
  if libffm == "" {
      libffm = "./ffm-train"
  }
  \<close>
\<close>

definition libffm :: "host \<Rightarrow> string" where
  "libffm h = (if Getenv h ''LIBFFM_CLI'' = [] then ''./ffm-train'' else Getenv h ''LIBFFM_CLI'')"

definition command_162 :: "host \<Rightarrow> real \<Rightarrow> real \<Rightarrow> int \<Rightarrow> string list" where
  "command_162 h lmd eta number =
     [libffm h,
      ''-p'', ''./data/valid2.txt'',
      ''--auto-stop'', ''--auto-stop-threshold'', ''3'',
      ''-l'', Sprintf_f h lmd,
      ''-r'', Sprintf_f h eta,
      ''-k'', ''4'',
      ''-t'', ''500'',
      ''--json-meta'', getMetaPath number,
      ''./data/train2.txt'']"

text \<open>
  Here the error of \<^verbatim>\<open>cmd.Run()\<close> is returned, only the standard output is
  captured, the errors of reading and decoding are returned as they are, and so is the
  error of the one attribute write.
\<close>

definition objective_162 :: "host \<Rightarrow> trial \<Rightarrow> (real \<times> error option) \<times> trial" where
  "objective_162 h t =
     (case SuggestLogUniform t ''lambda'' (1 / 1000000) 1 of
        Inl err \<Rightarrow> ((- 1, Some err), t)
      | Inr lmd \<Rightarrow>
     (case SuggestLogUniform t ''eta'' (1 / 1000000) 1 of
        Inl err \<Rightarrow> ((- 1, Some err), t)
      | Inr eta \<Rightarrow>
     (case Number t of
        Inl err \<Rightarrow> ((- 1, Some err), t)
      | Inr number \<Rightarrow>
        let ev = start_process h (command_162 h lmd eta number) in
        case Run ev of
          Some err \<Rightarrow> ((- 1, Some err), t)
        | None \<Rightarrow>
       (case ReadFile ev (getMetaPath number) of
          Inl err \<Rightarrow> ((- 1, Some err), t)
        | Inr jsonStr \<Rightarrow>
       (case Unmarshal jsonStr of
          Inl err \<Rightarrow> ((- 1, Some err), t)
        | Inr result \<Rightarrow>
          if BestIteration result = 0 \<and> BestVALoss result = 0
          then ((- 1, Some (Error ''failed to open json meta'')), t)
          else
            (case SetUserAttr ''best_iteration'' (Sprintf_d (BestIteration result)) t of
               (Some err, t1) \<Rightarrow> ((- 1, Some err), t1)
             | (None, t1) \<Rightarrow> ((BestVALoss result, None), t1)))))))"

section \<open>The record a study keeps of one trial\<close>

datatype status = Running | Complete | Failed

record trial_record =
  rec_number :: int
  rec_status :: status
  rec_value :: "real option"
  rec_attributes :: "string \<rightharpoonup> string"

text \<open>
  Modelled from the spec: the bookkeeping of \<^verbatim>\<open>study.Optimize\<close> around one call of
  the objective function, which is code of the goptuna library and not of this repository.
  Section 4.2, step e: a score makes the trial Complete with that value, an error makes it
  Failed with the value left unset; the attributes are those the objective stored.
\<close>

definition persist :: "int \<Rightarrow> (real \<times> error option) \<times> trial \<Rightarrow> trial_record" where
  "persist n r =
     (case r of
        ((score, None), t') \<Rightarrow>
          \<lparr>rec_number = n, rec_status = Complete, rec_value = Some score,
           rec_attributes = UserAttrs t'\<rparr>
      | ((score, Some err), t') \<Rightarrow>
          \<lparr>rec_number = n, rec_status = Failed, rec_value = None,
           rec_attributes = UserAttrs t'\<rparr>)"

definition run_trial :: "host \<Rightarrow> int \<Rightarrow> trial \<Rightarrow> trial_record" where
  "run_trial h n t = persist n (objective h t)"

definition run_trial_29 :: "host \<Rightarrow> int \<Rightarrow> trial \<Rightarrow> trial_record" where
  "run_trial_29 h n t = persist n (objective_29 h t)"

definition run_trial_162 :: "host \<Rightarrow> int \<Rightarrow> trial \<Rightarrow> trial_record" where
  "run_trial_162 h n t = persist n (objective_162 h t)"

section \<open>The final report of main\<close>

text \<open>
  \<^verbatim>\<open>study.GetBestValue()\<close> and \<^verbatim>\<open>study.GetBestParams()\<close> are library calls; each
  returns a result together with an error. A parameter value has the type
  \<^verbatim>\<open>interface{}\<close>: its dynamic type is part of the value. Looking up a key that a map
  does not hold (or any key in a nil map) gives the nil interface, \<open>None\<close>.
\<close>

datatype param = PFloat64 real | PInt int | PString string

record study_view =
  GetBestValue :: "real \<times> error option"
  GetBestParams :: "(string \<rightharpoonup> param) \<times> error option"

text \<open>What the operator gets to see: one of the program's ways of printing, or a panic.\<close>

datatype shown =
    Printf_best real real real real
  | Info_result real "string \<rightharpoonup> param"
  | Println_result real "string \<rightharpoonup> param"
  | Fatal string error
  | Panic string

text \<open>The type assertion \<^verbatim>\<open>x.(float64)\<close> in its one-result form: it panics on any
  other dynamic type and on the nil interface.\<close>

fun assert_float64 :: "param option \<Rightarrow> string + real" where
  "assert_float64 (Some (PFloat64 r)) = Inr r"
| "assert_float64 None = Inl ''interface conversion: interface {} is nil, not float64''"
| "assert_float64 (Some (PInt i)) = Inl ''interface conversion: interface {} is int, not float64''"
| "assert_float64 (Some (PString s)) = Inl ''interface conversion: interface {} is string, not float64''"

text \<open>
  src/unnamed/part_000, lines 143-147:
  \<^verbatim>\<open>
  v, _ := study.GetBestValue()
  params, _ := study.GetBestParams()
  log.Printf("Best evaluation=%f (lambda=%f, eta=%f, latent=%f)",
      v, params["lambda"].(float64), params["eta"].(float64), params["latent"].(float64))
  \<close>
  Both errors are dropped; the arguments are evaluated from left to right.
\<close>

definition report :: "study_view \<Rightarrow> shown" where
  "report sv =
     (let v = fst (GetBestValue sv);
          params = fst (GetBestParams sv)
      in case assert_float64 (params ''lambda'') of
           Inl msg \<Rightarrow> Panic msg
         | Inr lmd \<Rightarrow>
        (case assert_float64 (params ''eta'') of
           Inl msg \<Rightarrow> Panic msg
         | Inr eta \<Rightarrow>
        (case assert_float64 (params ''latent'') of
           Inl msg \<Rightarrow> Panic msg
         | Inr latent \<Rightarrow> Printf_best v lmd eta latent)))"

text \<open>
  src/main.go, lines 420-424:
  \<^verbatim>\<open>
  v, _ := study.GetBestValue()
  params, _ := study.GetBestParams()
  logger.Info("result", zap.Float64("value", v),
      zap.String("params", fmt.Sprintf("%#v", params)))
  \<close>
\<close>

definition report_420 :: "study_view \<Rightarrow> shown" where
  "report_420 sv =
     (let v = fst (GetBestValue sv);
          params = fst (GetBestParams sv)
      in Info_result v params)"

text \<open>
  src/main.go, lines 121-132 (and again lines 257-268): each error is checked, and
  \<^verbatim>\<open>logger.Fatal\<close> writes the message and ends the program.
\<close>

definition report_121 :: "study_view \<Rightarrow> shown" where
  "report_121 sv =
     (case GetBestValue sv of
        (v, Some err) \<Rightarrow> Fatal ''failed to get best value'' err
      | (v, None) \<Rightarrow>
     (case GetBestParams sv of
        (params, Some err) \<Rightarrow> Fatal ''failed to get best params'' err
      | (params, None) \<Rightarrow> Println_result v params))"

section \<open>main, as in src/unnamed/part_000 lines 107-141 and src/main.go lines 384-418\<close>

text \<open>
  The goroutines of \<^verbatim>\<open>main\<close> are modelled as a transition system. The state is taken
  from the moment \<^verbatim>\<open>main\<close> has started the signal listener and the workers and stands
  at \<^verbatim>\<open>wg.Wait()\<close>; a goroutine that has not yet run is in its first state. An event
  lets one goroutine take its next step, or lets the operating system deliver a signal.
\<close>

datatype signal = SIGINT | SIGTERM | SIGQUIT

text \<open>
  \<^verbatim>\<open>main\<close> from line 141 of part_000 on: the wait, the report, then the deferred
  calls in reverse order of their \<^verbatim>\<open>defer\<close> statements: \<^verbatim>\<open>close(sigch)\<close>,
  \<^verbatim>\<open>cancel()\<close>, \<^verbatim>\<open>db.Close()\<close>. What the report prints is the subject of
  the functions \<open>report\<close> and \<open>report_420\<close> above; the deferred calls run after it
  also when it panics.
\<close>

datatype main_pc = AtWait | AtReport | AtDeferClose | AtDeferCancel | AtDeferDbClose | Returned

text \<open>
  The listener, lines 119-127 of part_000:
  \<^verbatim>\<open>
  go func() {
      defer wg.Done()
      sig, ok := <-sigch
      if !ok {
          return
      }
      cancel()
      log.Print("catch a kill signal:", sig.String())
  } ()
  \<close>
\<close>

datatype listener_pc = Receiving | Cancelling signal | Logging signal | Finished

text \<open>
  A worker, lines 133-139 of part_000, is inside \<^verbatim>\<open>study.Optimize(objective, n)\<close>
  with some number of evaluations left, or has returned.
\<close>

datatype worker = Optimizing nat | Exited_worker

record sys =
  main_at :: main_pc
  listener_at :: listener_pc
  workers :: "worker list"
  wg :: int
  sigch :: "signal list"
  sigch_closed :: bool
  ctx_done :: bool
  fired :: "signal list"
  logged :: "signal list"
  attempted :: nat
  panicked :: bool

text \<open>
  \<^verbatim>\<open>concurrency := runtime.NumCPU() - 1\<close>, and the loop that starts
  \<^verbatim>\<open>concurrency\<close> workers, each with \<^verbatim>\<open>1000 / concurrency\<close> evaluations. The
  division stands inside the loop, so it is never carried out with a zero divisor.
\<close>

definition concurrency :: "int \<Rightarrow> int" where
  "concurrency NumCPU = NumCPU - 1"

definition evaluateMax :: "int \<Rightarrow> nat" where
  "evaluateMax NumCPU = nat (1000 div concurrency NumCPU)"

definition init :: "int \<Rightarrow> sys" where
  "init NumCPU =
     \<lparr>main_at = AtWait,
      listener_at = Receiving,
      workers = replicate (nat (concurrency NumCPU)) (Optimizing (evaluateMax NumCPU)),
      wg = 1 + int (nat (concurrency NumCPU)),
      sigch = [],
      sigch_closed = False,
      ctx_done = False,
      fired = [],
      logged = [],
      attempted = 0,
      panicked = False\<rparr>"

text \<open>
  \<^verbatim>\<open>signal.Notify(sigch, ...)\<close> relays a signal with a send that does not block:
  the channel \<^verbatim>\<open>make(chan os.Signal, 1)\<close> takes it when its one slot is free, and
  the signal is dropped otherwise. The program never calls \<^verbatim>\<open>signal.Stop\<close>, so the
  relay stays in place after \<^verbatim>\<open>close(sigch)\<close>, and a send on a closed channel is a
  run-time panic.
\<close>

definition deliver :: "signal \<Rightarrow> sys \<Rightarrow> sys" where
  "deliver sig s =
     (if sigch_closed s then s\<lparr>panicked := True\<rparr>
      else if length (sigch s) < 1 then s\<lparr>sigch := sigch s @ [sig]\<rparr>
      else s)"

definition listener_step :: "sys \<Rightarrow> sys" where
  "listener_step s =
     (case listener_at s of
        Receiving \<Rightarrow>
          (case sigch s of
             sig # rest \<Rightarrow> s\<lparr>sigch := rest, listener_at := Cancelling sig\<rparr>
           | [] \<Rightarrow> if sigch_closed s then s\<lparr>listener_at := Finished, wg := wg s - 1\<rparr> else s)
      | Cancelling sig \<Rightarrow> s\<lparr>ctx_done := True, fired := fired s @ [sig], listener_at := Logging sig\<rparr>
      | Logging sig \<Rightarrow> s\<lparr>logged := logged s @ [sig], listener_at := Finished, wg := wg s - 1\<rparr>
      | Finished \<Rightarrow> s)"

text \<open>
  Modelled from the spec: the loop of \<^verbatim>\<open>study.Optimize\<close>, which is code of the
  goptuna library and not of this repository. Section 4.2: a worker goes on while it has
  evaluations left and the cancellation has not fired, and each pass is one trial that is
  attempted. \<open>worker_trial\<close> is one pass; \<open>worker_return\<close> is the return when the
  evaluations are used up or the context is done; \<open>worker_error\<close> is a return with any
  other error, which lines 136-138 log. After either return the deferred
  \<^verbatim>\<open>wg.Done()\<close> runs.
\<close>

definition worker_trial :: "nat \<Rightarrow> sys \<Rightarrow> sys" where
  "worker_trial i s =
     (if i < length (workers s) then
        (case workers s ! i of
           Optimizing n \<Rightarrow>
             if 0 < n \<and> \<not> ctx_done s
             then s\<lparr>workers := (workers s)[i := Optimizing (n - 1)], attempted := attempted s + 1\<rparr>
             else s
         | Exited_worker \<Rightarrow> s)
      else s)"

definition worker_return :: "nat \<Rightarrow> sys \<Rightarrow> sys" where
  "worker_return i s =
     (if i < length (workers s) then
        (case workers s ! i of
           Optimizing n \<Rightarrow>
             if n = 0 \<or> ctx_done s
             then s\<lparr>workers := (workers s)[i := Exited_worker], wg := wg s - 1\<rparr>
             else s
         | Exited_worker \<Rightarrow> s)
      else s)"

definition worker_error :: "nat \<Rightarrow> sys \<Rightarrow> sys" where
  "worker_error i s =
     (if i < length (workers s) then
        (case workers s ! i of
           Optimizing n \<Rightarrow> s\<lparr>workers := (workers s)[i := Exited_worker], wg := wg s - 1\<rparr>
         | Exited_worker \<Rightarrow> s)
      else s)"

definition main_step :: "sys \<Rightarrow> sys" where
  "main_step s =
     (case main_at s of
        AtWait \<Rightarrow> if wg s = 0 then s\<lparr>main_at := AtReport\<rparr> else s
      | AtReport \<Rightarrow> s\<lparr>main_at := AtDeferClose\<rparr>
      | AtDeferClose \<Rightarrow> s\<lparr>sigch_closed := True, main_at := AtDeferCancel\<rparr>
      | AtDeferCancel \<Rightarrow> s\<lparr>ctx_done := True, main_at := AtDeferDbClose\<rparr>
      | AtDeferDbClose \<Rightarrow> s\<lparr>main_at := Returned\<rparr>
      | Returned \<Rightarrow> s)"

datatype event =
    Signal signal
  | ListenerStep
  | WorkerTrial nat
  | WorkerReturn nat
  | WorkerError nat
  | MainStep

text \<open>Once the program has panicked or \<^verbatim>\<open>main\<close> has returned, the process is gone.\<close>

definition step :: "sys \<Rightarrow> event \<Rightarrow> sys" where
  "step s e =
     (if panicked s \<or> main_at s = Returned then s
      else case e of
        Signal sig \<Rightarrow> deliver sig s
      | ListenerStep \<Rightarrow> listener_step s
      | WorkerTrial i \<Rightarrow> worker_trial i s
      | WorkerReturn i \<Rightarrow> worker_return i s
      | WorkerError i \<Rightarrow> worker_error i s
      | MainStep \<Rightarrow> main_step s)"

definition run :: "sys \<Rightarrow> event list \<Rightarrow> sys" where
  "run s evs = foldl step s evs"

fun is_signal :: "event \<Rightarrow> bool" where
  "is_signal (Signal sig) = True"
| "is_signal e = False"

fun is_worker_error :: "event \<Rightarrow> bool" where
  "is_worker_error (WorkerError i) = True"
| "is_worker_error e = False"

fun remaining :: "worker \<Rightarrow> nat" where
  "remaining (Optimizing n) = n"
| "remaining Exited_worker = 0"

fun exited :: "worker \<Rightarrow> bool" where
  "exited (Optimizing n) = False"
| "exited Exited_worker = True"

section \<open>A sample world\<close>

text \<open>
  Trial 7 with the suggestions lambda = 0.01, eta = 0.1 and latent = 4, on a machine where
  the only file the evaluator may leave behind is the one of trial 7. The parameters are
  the value of \<^verbatim>\<open>LIBFFM_CLI\<close>, how the process ends, whether the context fires while
  it runs, and what reading the file of trial 7 gives afterwards.
\<close>

definition sample_trial :: trial where
  "sample_trial =
     \<lparr>SuggestLogUniform = (\<lambda>name lo hi. Inr (if name = ''lambda'' then 1 / 100 else 1 / 10)),
      SuggestInt = (\<lambda>name lo hi. Inr 4),
      Number = Inr 7,
      attr_write = (\<lambda>k v. None),
      UserAttrs = Map.empty\<rparr>"

definition sample_host :: "string \<Rightarrow> proc_end \<Rightarrow> bool \<Rightarrow> error + content \<Rightarrow> host" where
  "sample_host cli e c f =
     \<lparr>Sprintf_f = (\<lambda>r. if r = 1 / 100 then ''0.010000'' else ''0.100000''),
      Getenv = (\<lambda>name. if name = ''LIBFFM_CLI'' then cli else []),
      start_process = (\<lambda>argv.
        \<lparr>ended = e, ctx_fired = c, stdout_text = ''iter'', stderr_text = [],
         ReadFile = (\<lambda>path. if path = ''./data/optuna/ffm-meta-7.json'' then f
                              else Inl (Error ''open: no such file or directory''))\<rparr>)\<rparr>"

text \<open>A storage that refuses every attribute.\<close>

definition refusing_trial :: trial where
  "refusing_trial = sample_trial\<lparr>attr_write := (\<lambda>k v. Some (Error ''database is locked''))\<rparr>"

text \<open>
  Three output files: the record of the spec's scenario, the same record under the key the
  program reads, and the all-zero record. The real \<open>1834 / 10000\<close> stands for the
  \<^verbatim>\<open>float64\<close> that the literal \<^verbatim>\<open>0.1834\<close> is rounded to.
\<close>

definition doc_best_score :: content where
  "doc_best_score =
     JSON (JObject [(''best_iteration'', JNumber (Some 42) (Some 42)),
                    (''best_score'', JNumber None (Some (1834 / 10000)))])"

definition doc_best_va_loss :: content where
  "doc_best_va_loss =
     JSON (JObject [(''best_iteration'', JNumber (Some 42) (Some 42)),
                    (''best_va_loss'', JNumber None (Some (1834 / 10000)))])"

definition doc_all_zero :: content where
  "doc_all_zero =
     JSON (JObject [(''best_iteration'', JNumber (Some 0) (Some 0)),
                    (''best_va_loss'', JNumber (Some 0) (Some 0))])"

definition no_such_file :: "error + content" where
  "no_such_file = Inl (Error ''open ./data/optuna/ffm-meta-7.json: no such file or directory'')"

text \<open>
  A machine on which the evaluator is installed at \<^verbatim>\<open>/opt/libffm/ffm-train\<close> and
  nowhere else: the command line of trial 7 that starts with this path runs and leaves the
  record of trial 7, and every other command line cannot be started. The parameter is the
  value of \<^verbatim>\<open>LIBFFM_CLI\<close>.
\<close>

definition installed_evaluation :: evaluation where
  "installed_evaluation =
     \<lparr>ended = Exited 0, ctx_fired = False, stdout_text = ''iter'', stderr_text = [],
      ReadFile = (\<lambda>path. if path = ''./data/optuna/ffm-meta-7.json'' then Inr doc_best_va_loss
                           else Inl (Error ''open: no such file or directory''))\<rparr>"

definition missing_evaluation :: evaluation where
  "missing_evaluation =
     \<lparr>ended = NotStarted, ctx_fired = False, stdout_text = [], stderr_text = [],
      ReadFile = (\<lambda>path. Inl (Error ''open: no such file or directory''))\<rparr>"

definition override_host :: "string \<Rightarrow> host" where
  "override_host cli =
     \<lparr>Sprintf_f = (\<lambda>r. if r = 1 / 100 then ''0.010000'' else ''0.100000''),
      Getenv = (\<lambda>name. if name = ''LIBFFM_CLI'' then cli else []),
      start_process = (\<lambda>argv.
        if argv =
           [''/opt/libffm/ffm-train'',
            ''-p'', ''./data/valid2.txt'',
            ''--auto-stop'', ''--auto-stop-threshold'', ''3'',
            ''-l'', ''0.010000'',
            ''-r'', ''0.100000'',
            ''-k'', ''4'',
            ''-t'', ''500'',
            ''--json-meta'', ''./data/optuna/ffm-meta-7.json'',
            ''./data/train2.txt'']
        then installed_evaluation else missing_evaluation)\<rparr>"

text \<open>A study without a Complete trial: both queries return an error and no result.\<close>

definition no_complete_trials :: study_view where
  "no_complete_trials =
     \<lparr>GetBestValue = (0, Some (Error ''trial not found'')),
      GetBestParams = (Map.empty, Some (Error ''trial not found''))\<rparr>"

text \<open>Properties of a schedule and of the workers, as functions that compute.\<close>

fun no_signals :: "event list \<Rightarrow> bool" where
  "no_signals [] = True"
| "no_signals (e # es) = (if is_signal e then False else no_signals es)"

fun no_worker_errors :: "event list \<Rightarrow> bool" where
  "no_worker_errors [] = True"
| "no_worker_errors (e # es) = (if is_worker_error e then False else no_worker_errors es)"

fun all_exited :: "worker list \<Rightarrow> bool" where
  "all_exited [] = True"
| "all_exited (w # ws) = (if exited w then all_exited ws else False)"

fun active :: "worker \<Rightarrow> nat" where
  "active (Optimizing n) = 1"
| "active Exited_worker = 0"

text \<open>
  The state of a run in which no signal has been delivered: the listener still waits at
  its receive, \<^verbatim>\<open>main\<close> still waits for the listener, and the wait group counts the
  listener and the workers that have not returned.
\<close>

definition waiting :: "sys \<Rightarrow> bool" where
  "waiting s =
     (\<not> panicked s \<and> main_at s = AtWait \<and> listener_at s = Receiving \<and> sigch s = [] \<and>
      \<not> sigch_closed s \<and> \<not> ctx_done s \<and> fired s = [] \<and> logged s = [] \<and>
      wg s = 1 + int (sum_list (map active (workers s))))"

text \<open>The evaluations handed out to the workers: those attempted and those still left.\<close>

definition handed_out :: "sys \<Rightarrow> nat" where
  "handed_out s = attempted s + sum_list (map remaining (workers s))"

text \<open>What the listener has fired so far, by the place it stands at.\<close>

definition fired_once :: "sys \<Rightarrow> bool" where
  "fired_once s =
     (case listener_at s of
        Receiving \<Rightarrow> fired s = []
      | Cancelling sig \<Rightarrow> fired s = []
      | Logging sig \<Rightarrow> fired s = [sig]
      | Finished \<Rightarrow> length (fired s) \<le> 1)"

section \<open>Sample schedules\<close>

text \<open>Four processors, three workers with 333 evaluations each, every worker runs to its
  end, no signal.\<close>

definition schedule_4 :: "event list" where
  "schedule_4 =
     replicate 333 (WorkerTrial 0) @ replicate 333 (WorkerTrial 1) @ replicate 333 (WorkerTrial 2) @
     [WorkerReturn 0, WorkerReturn 1, WorkerReturn 2, MainStep]"

text \<open>Two processors, one worker with 1000 evaluations that runs to its end, no signal; then
  \<^verbatim>\<open>main\<close> is given the chance to go on.\<close>

definition schedule_2 :: "event list" where
  "schedule_2 = replicate 1000 (WorkerTrial 0) @ [WorkerReturn 0, MainStep, MainStep]"

text \<open>Two processors, one worker whose \<^verbatim>\<open>Optimize\<close> returns an error after two
  trials, no signal.\<close>

definition schedule_error :: "event list" where
  "schedule_error = [WorkerTrial 0, WorkerTrial 0, WorkerError 0]"

text \<open>
  Two processors. The worker makes a trial, an interrupt arrives, the listener cancels and
  logs, the worker returns, \<^verbatim>\<open>main\<close> passes the wait, reports and runs its first
  deferred call, \<^verbatim>\<open>close(sigch)\<close>; then a second signal arrives.
\<close>

definition schedule_two_signals :: "event list" where
  "schedule_two_signals =
     [WorkerTrial 0, Signal SIGINT, ListenerStep, ListenerStep, ListenerStep, WorkerReturn 0,
      MainStep, MainStep, MainStep, Signal SIGTERM]"

text \<open>The same beginning, with a second and a third signal while the channel is still open:
  one is buffered, one is dropped.\<close>

definition schedule_early_second :: "event list" where
  "schedule_early_second =
     [WorkerTrial 0, Signal SIGINT, ListenerStep, Signal SIGTERM, ListenerStep, Signal SIGQUIT, ListenerStep,
      ListenerStep, WorkerReturn 0, MainStep]"

section \<open>Evaluating the samples\<close>

lemma jsonMetaPath_7: "jsonMetaPath 7 = ''./data/optuna/ffm-meta-7.json''"
  by code_simp

lemma getMetaPath_7: "getMetaPath 7 = ''./data/optuna/ffm-meta-7.json''"
  by code_simp

lemma Sprintf_d_42: "Sprintf_d 42 = ''42''"
  by code_simp

lemma Unmarshal_best_score: "Unmarshal doc_best_score = Inr \<lparr>BestIteration = 42, BestVALoss = 0\<rparr>"
  by (simp add: doc_best_score_def zero_meta_def key_matches_def ascii_lower_def)

lemma Unmarshal_best_va_loss:
  "Unmarshal doc_best_va_loss = Inr \<lparr>BestIteration = 42, BestVALoss = 1834 / 10000\<rparr>"
  by (simp add: doc_best_va_loss_def zero_meta_def key_matches_def ascii_lower_def)

lemma Unmarshal_all_zero: "Unmarshal doc_all_zero = Inr \<lparr>BestIteration = 0, BestVALoss = 0\<rparr>"
  by (simp add: doc_all_zero_def zero_meta_def key_matches_def ascii_lower_def)

lemmas sample_simps = sample_host_def sample_trial_def refusing_trial_def jsonMetaPath_7 getMetaPath_7 Sprintf_d_42
  Unmarshal_best_score Unmarshal_best_va_loss Unmarshal_all_zero SetUserAttr_def Let_def no_such_file_def

lemma show_nat_1: "show_nat (Suc 0) = ''1''"
  by code_simp

lemma objective_ignores_run:
  "objective (h\<lparr>start_process := (\<lambda>argv. (start_process h argv)\<lparr>ended := e, ctx_fired := c\<rparr>)\<rparr>) t
     = objective h t"
  by (simp add: objective_def command_def Let_def split: sum.splits)

lemma objective_29_ignores_run:
  "objective_29 (h\<lparr>start_process := (\<lambda>argv. (start_process h argv)\<lparr>ended := e, ctx_fired := c\<rparr>)\<rparr>) t
     = objective_29 h t"
  by (simp add: objective_29_def command_29_def Let_def split: sum.splits)

section \<open>Running a schedule\<close>

lemma run_Nil: "run s [] = s"
  by (simp add: run_def)

lemma run_Cons: "run s (e # es) = run (step s e) es"
  by (simp add: run_def)

lemma run_append: "run s (es @ fs) = run (run s es) fs"
  by (simp add: run_def)

lemma run_snoc: "run s (es @ [e]) = step (run s es) e"
  by (simp add: run_def)

lemma run_trials:
  "\<not> panicked s \<Longrightarrow> main_at s \<noteq> Returned \<Longrightarrow> \<not> ctx_done s \<Longrightarrow> i < length (workers s) \<Longrightarrow>
   workers s ! i = Optimizing (k + m) \<Longrightarrow>
   run s (replicate k (WorkerTrial i)) =
     s\<lparr>workers := (workers s)[i := Optimizing m], attempted := attempted s + k\<rparr>"
proof (induction k arbitrary: s)
  case 0
  then have "(workers s)[i := Optimizing m] = workers s"
    by (metis add_0 list_update_id)
  then show ?case by (simp add: run_Nil)
next
  case (Suc k)
  let ?s' = "s\<lparr>workers := (workers s)[i := Optimizing (k + m)], attempted := attempted s + 1\<rparr>"
  have st: "step s (WorkerTrial i) = ?s'"
    using Suc.prems by (simp add: step_def worker_trial_def)
  have "run ?s' (replicate k (WorkerTrial i)) =
          ?s'\<lparr>workers := (workers ?s')[i := Optimizing m], attempted := attempted ?s' + k\<rparr>"
    using Suc.prems by (intro Suc.IH) simp_all
  then show ?case
    by (simp add: run_Cons st)
qed

lemma init_4: "init 4 = \<lparr>main_at = AtWait, listener_at = Receiving,
      workers = [Optimizing 333, Optimizing 333, Optimizing 333], wg = 4, sigch = [], sigch_closed = False,
      ctx_done = False, fired = [], logged = [], attempted = 0, panicked = False\<rparr>"
  by (simp add: init_def concurrency_def evaluateMax_def numeral_3_eq_3)

lemma init_2: "init 2 = \<lparr>main_at = AtWait, listener_at = Receiving,
      workers = [Optimizing 1000], wg = 2, sigch = [], sigch_closed = False,
      ctx_done = False, fired = [], logged = [], attempted = 0, panicked = False\<rparr>"
  by (simp add: init_def concurrency_def evaluateMax_def)

lemma run_schedule_4:
  "run (init 4) schedule_4 = \<lparr>main_at = AtWait, listener_at = Receiving,
      workers = [Exited_worker, Exited_worker, Exited_worker], wg = 1, sigch = [], sigch_closed = False,
      ctx_done = False, fired = [], logged = [], attempted = 999, panicked = False\<rparr>"
proof -
  have a: "run (init 4) (replicate 333 (WorkerTrial 0)) = \<lparr>main_at = AtWait, listener_at = Receiving,
      workers = [Optimizing 0, Optimizing 333, Optimizing 333], wg = 4, sigch = [], sigch_closed = False,
      ctx_done = False, fired = [], logged = [], attempted = 333, panicked = False\<rparr>"
    by (subst run_trials [where m = 0]) (simp_all add: init_4)
  have b: "run (run (init 4) (replicate 333 (WorkerTrial 0))) (replicate 333 (WorkerTrial 1)) = \<lparr>main_at = AtWait, listener_at = Receiving,
      workers = [Optimizing 0, Optimizing 0, Optimizing 333], wg = 4, sigch = [], sigch_closed = False,
      ctx_done = False, fired = [], logged = [], attempted = 666, panicked = False\<rparr>"
    unfolding a by (subst run_trials [where m = 0]) simp_all
  have c: "run (run (run (init 4) (replicate 333 (WorkerTrial 0))) (replicate 333 (WorkerTrial 1))) (replicate 333 (WorkerTrial 2)) = \<lparr>main_at = AtWait, listener_at = Receiving,
      workers = [Optimizing 0, Optimizing 0, Optimizing 0], wg = 4, sigch = [], sigch_closed = False,
      ctx_done = False, fired = [], logged = [], attempted = 999, panicked = False\<rparr>"
    unfolding b by (subst run_trials [where m = 0]) simp_all
  show ?thesis
    unfolding schedule_4_def run_append c
    by (simp add: run_Cons run_Nil step_def worker_return_def main_step_def)
qed

lemma run_schedule_2:
  "run (init 2) schedule_2 = \<lparr>main_at = AtWait, listener_at = Receiving,
      workers = [Exited_worker], wg = 1, sigch = [], sigch_closed = False,
      ctx_done = False, fired = [], logged = [], attempted = 1000, panicked = False\<rparr>"
proof -
  have a: "run (init 2) (replicate 1000 (WorkerTrial 0)) = \<lparr>main_at = AtWait, listener_at = Receiving,
      workers = [Optimizing 0], wg = 2, sigch = [], sigch_closed = False,
      ctx_done = False, fired = [], logged = [], attempted = 1000, panicked = False\<rparr>"
    by (subst run_trials [where m = 0]) (simp_all add: init_2)
  show ?thesis
    unfolding schedule_2_def run_append a
    by (simp add: run_Cons run_Nil step_def worker_return_def main_step_def)
qed

lemma run_schedule_error:
  "run (init 2) schedule_error = \<lparr>main_at = AtWait, listener_at = Receiving,
      workers = [Exited_worker], wg = 1, sigch = [], sigch_closed = False,
      ctx_done = False, fired = [], logged = [], attempted = 2, panicked = False\<rparr>"
  by (simp add: schedule_error_def init_2 run_Cons run_Nil step_def worker_trial_def worker_error_def)

lemma run_schedule_two_signals:
  "run (init 2) schedule_two_signals = \<lparr>main_at = AtDeferCancel, listener_at = Finished,
      workers = [Exited_worker], wg = 0, sigch = [], sigch_closed = True,
      ctx_done = True, fired = [SIGINT], logged = [SIGINT], attempted = 1, panicked = True\<rparr>"
  by (simp add: schedule_two_signals_def init_2 run_Cons run_Nil step_def deliver_def listener_step_def
      worker_trial_def worker_return_def main_step_def)

lemma run_schedule_early_second:
  "run (init 2) schedule_early_second = \<lparr>main_at = AtReport, listener_at = Finished,
      workers = [Exited_worker], wg = 0, sigch = [SIGTERM], sigch_closed = False,
      ctx_done = True, fired = [SIGINT], logged = [SIGINT], attempted = 1, panicked = False\<rparr>"
  by (simp add: schedule_early_second_def init_2 run_Cons run_Nil step_def deliver_def listener_step_def
      worker_trial_def worker_return_def main_step_def)

section \<open>Invariants of the goroutines\<close>

lemma sum_list_map_update:
  fixes f :: "'a \<Rightarrow> nat"
  shows "i < length ws \<Longrightarrow> sum_list (map f (ws[i := w])) + f (ws ! i) = sum_list (map f ws) + f w"
proof (induction ws arbitrary: i)
  case Nil
  then show ?case by simp
next
  case (Cons a ws)
  show ?case
  proof (cases i)
    case 0
    then show ?thesis by simp
  next
    case (Suc j)
    with Cons.prems have "j < length ws" by simp
    from Cons.IH [OF this] Suc show ?thesis by simp
  qed
qed

lemma waiting_step:
  assumes "waiting s" and "\<not> is_signal e"
  shows "waiting (step s e)"
proof (cases e)
  case (Signal sig)
  with assms show ?thesis by simp
next
  case ListenerStep
  with assms show ?thesis by (simp add: waiting_def step_def listener_step_def)
next
  case (WorkerTrial i)
  show ?thesis
  proof (cases "i < length (workers s)")
    case False
    with assms WorkerTrial show ?thesis by (simp add: waiting_def step_def worker_trial_def)
  next
    case True
    show ?thesis
    proof (cases "workers s ! i")
      case (Optimizing n)
      from sum_list_map_update [OF True, of active "Optimizing (n - 1)"] Optimizing
      have "sum_list (map active ((workers s)[i := Optimizing (n - 1)])) = sum_list (map active (workers s))"
        by simp
      with assms WorkerTrial True Optimizing show ?thesis
        by (simp add: waiting_def step_def worker_trial_def)
    next
      case Exited_worker
      with assms WorkerTrial True show ?thesis by (simp add: waiting_def step_def worker_trial_def)
    qed
  qed
next
  case (WorkerReturn i)
  show ?thesis
  proof (cases "i < length (workers s)")
    case False
    with assms WorkerReturn show ?thesis by (simp add: waiting_def step_def worker_return_def)
  next
    case True
    show ?thesis
    proof (cases "workers s ! i")
      case (Optimizing n)
      from sum_list_map_update [OF True, of active Exited_worker] Optimizing
      have "sum_list (map active ((workers s)[i := Exited_worker])) + 1 = sum_list (map active (workers s))"
        by simp
      then have "int (sum_list (map active (workers s))) - 1 = int (sum_list (map active ((workers s)[i := Exited_worker])))"
        by linarith
      with assms WorkerReturn True Optimizing show ?thesis
        by (simp add: waiting_def step_def worker_return_def)
    next
      case Exited_worker
      with assms WorkerReturn True show ?thesis by (simp add: waiting_def step_def worker_return_def)
    qed
  qed
next
  case (WorkerError i)
  show ?thesis
  proof (cases "i < length (workers s)")
    case False
    with assms WorkerError show ?thesis by (simp add: waiting_def step_def worker_error_def)
  next
    case True
    show ?thesis
    proof (cases "workers s ! i")
      case (Optimizing n)
      from sum_list_map_update [OF True, of active Exited_worker] Optimizing
      have "sum_list (map active ((workers s)[i := Exited_worker])) + 1 = sum_list (map active (workers s))"
        by simp
      then have "int (sum_list (map active (workers s))) - 1 = int (sum_list (map active ((workers s)[i := Exited_worker])))"
        by linarith
      with assms WorkerError True Optimizing show ?thesis
        by (simp add: waiting_def step_def worker_error_def)
    next
      case Exited_worker
      with assms WorkerError True show ?thesis by (simp add: waiting_def step_def worker_error_def)
    qed
  qed
next
  case MainStep
  with assms show ?thesis by (simp add: waiting_def step_def main_step_def)
qed

lemma waiting_run: "waiting s \<Longrightarrow> no_signals evs \<Longrightarrow> waiting (run s evs)"
proof (induction evs arbitrary: s)
  case Nil
  then show ?case by (simp add: run_Nil)
next
  case (Cons e evs)
  from Cons.prems have e: "\<not> is_signal e" and rest: "no_signals evs"
    by (simp_all split: if_splits)
  from Cons.IH [OF waiting_step [OF Cons.prems(1) e] rest] show ?case
    by (simp add: run_Cons)
qed

lemma waiting_init: "waiting (init NumCPU)"
  by (simp add: waiting_def init_def sum_list_replicate)

lemma handed_out_step: "handed_out (step s e) \<le> handed_out s"
proof (cases e)
  case (Signal sig)
  then show ?thesis by (simp add: handed_out_def step_def deliver_def)
next
  case ListenerStep
  then show ?thesis
    by (simp add: handed_out_def step_def listener_step_def split: listener_pc.splits list.splits)
next
  case (WorkerTrial i)
  show ?thesis
  proof (cases "i < length (workers s)")
    case False
    with WorkerTrial show ?thesis by (simp add: handed_out_def step_def worker_trial_def)
  next
    case True
    show ?thesis
    proof (cases "workers s ! i")
      case (Optimizing n)
      from sum_list_map_update [OF True, of remaining "Optimizing (n - 1)"] Optimizing
      have "sum_list (map remaining ((workers s)[i := Optimizing (n - 1)])) + n
              = sum_list (map remaining (workers s)) + (n - 1)"
        by simp
      with WorkerTrial True Optimizing show ?thesis
        by (auto simp: handed_out_def step_def worker_trial_def)
    next
      case Exited_worker
      with WorkerTrial True show ?thesis by (simp add: handed_out_def step_def worker_trial_def)
    qed
  qed
next
  case (WorkerReturn i)
  show ?thesis
  proof (cases "i < length (workers s)")
    case False
    with WorkerReturn show ?thesis by (simp add: handed_out_def step_def worker_return_def)
  next
    case True
    show ?thesis
    proof (cases "workers s ! i")
      case (Optimizing n)
      from sum_list_map_update [OF True, of remaining Exited_worker] Optimizing
      have "sum_list (map remaining ((workers s)[i := Exited_worker])) + n
              = sum_list (map remaining (workers s))"
        by simp
      with WorkerReturn True Optimizing show ?thesis
        by (auto simp: handed_out_def step_def worker_return_def)
    next
      case Exited_worker
      with WorkerReturn True show ?thesis by (simp add: handed_out_def step_def worker_return_def)
    qed
  qed
next
  case (WorkerError i)
  show ?thesis
  proof (cases "i < length (workers s)")
    case False
    with WorkerError show ?thesis by (simp add: handed_out_def step_def worker_error_def)
  next
    case True
    show ?thesis
    proof (cases "workers s ! i")
      case (Optimizing n)
      from sum_list_map_update [OF True, of remaining Exited_worker] Optimizing
      have "sum_list (map remaining ((workers s)[i := Exited_worker])) + n
              = sum_list (map remaining (workers s))"
        by simp
      with WorkerError True Optimizing show ?thesis
        by (auto simp: handed_out_def step_def worker_error_def)
    next
      case Exited_worker
      with WorkerError True show ?thesis by (simp add: handed_out_def step_def worker_error_def)
    qed
  qed
next
  case MainStep
  then show ?thesis by (simp add: handed_out_def step_def main_step_def split: main_pc.splits)
qed

lemma handed_out_run: "handed_out (run s evs) \<le> handed_out s"
proof (induction evs arbitrary: s)
  case Nil
  then show ?case by (simp add: run_Nil)
next
  case (Cons e evs)
  have "handed_out (run (step s e) evs) \<le> handed_out (step s e)" by (rule Cons.IH)
  also have "\<dots> \<le> handed_out s" by (rule handed_out_step)
  finally show ?case by (simp add: run_Cons)
qed

lemma handed_out_init: "handed_out (init NumCPU) = nat (concurrency NumCPU) * evaluateMax NumCPU"
  by (simp add: handed_out_def init_def sum_list_replicate)

lemma handed_out_le_1000: "nat (concurrency NumCPU) * evaluateMax NumCPU \<le> 1000"
proof (cases "0 < concurrency NumCPU")
  case False
  then show ?thesis by simp
next
  case True
  define c where "c = concurrency NumCPU"
  have c: "0 < c" using True by (simp add: c_def)
  have "c * (1000 div c) + 1000 mod c = 1000" by (rule mult_div_mod_eq)
  moreover have "0 \<le> 1000 mod c" using c by (rule pos_mod_sign)
  ultimately have le: "c * (1000 div c) \<le> 1000" by linarith
  have "nat c * nat (1000 div c) = nat (c * (1000 div c))"
    using c by (simp add: nat_mult_distrib)
  also have "\<dots> \<le> 1000" using le by simp
  finally show ?thesis by (simp add: evaluateMax_def c_def)
qed


lemma handed_out_step_eq:
  assumes "\<not> ctx_done s" and "\<not> is_worker_error e"
  shows "handed_out (step s e) = handed_out s"
proof (cases e)
  case (Signal sig)
  then show ?thesis by (simp add: handed_out_def step_def deliver_def)
next
  case ListenerStep
  then show ?thesis
    by (simp add: handed_out_def step_def listener_step_def split: listener_pc.splits list.splits)
next
  case (WorkerTrial i)
  show ?thesis
  proof (cases "i < length (workers s)")
    case False
    with WorkerTrial show ?thesis by (simp add: handed_out_def step_def worker_trial_def)
  next
    case True
    show ?thesis
    proof (cases "workers s ! i")
      case (Optimizing n)
      from sum_list_map_update [OF True, of remaining "Optimizing (n - 1)"] Optimizing
      have "sum_list (map remaining ((workers s)[i := Optimizing (n - 1)])) + n
              = sum_list (map remaining (workers s)) + (n - 1)"
        by simp
      with WorkerTrial True Optimizing show ?thesis
        by (auto simp: handed_out_def step_def worker_trial_def)
    next
      case Exited_worker
      with WorkerTrial True show ?thesis by (simp add: handed_out_def step_def worker_trial_def)
    qed
  qed
next
  case (WorkerReturn i)
  show ?thesis
  proof (cases "i < length (workers s)")
    case False
    with WorkerReturn show ?thesis by (simp add: handed_out_def step_def worker_return_def)
  next
    case True
    show ?thesis
    proof (cases "workers s ! i")
      case (Optimizing n)
      from sum_list_map_update [OF True, of remaining Exited_worker] Optimizing
      have "sum_list (map remaining ((workers s)[i := Exited_worker])) + n
              = sum_list (map remaining (workers s))"
        by simp
      with WorkerReturn True Optimizing assms(1) show ?thesis
        by (auto simp: handed_out_def step_def worker_return_def)
    next
      case Exited_worker
      with WorkerReturn True show ?thesis by (simp add: handed_out_def step_def worker_return_def)
    qed
  qed
next
  case (WorkerError i)
  with assms(2) show ?thesis by simp
next
  case MainStep
  then show ?thesis by (simp add: handed_out_def step_def main_step_def split: main_pc.splits)
qed

lemma handed_out_quiet_run:
  "waiting s \<Longrightarrow> no_signals evs \<Longrightarrow> no_worker_errors evs \<Longrightarrow> handed_out (run s evs) = handed_out s"
proof (induction evs arbitrary: s)
  case Nil
  then show ?case by (simp add: run_Nil)
next
  case (Cons e evs)
  from Cons.prems have e: "\<not> is_signal e" "\<not> is_worker_error e"
    and rest: "no_signals evs" "no_worker_errors evs"
    by (simp_all split: if_splits)
  have w: "waiting (step s e)" using Cons.prems(1) e(1) by (rule waiting_step)
  have "handed_out (run (step s e) evs) = handed_out (step s e)"
    using w rest by (rule Cons.IH)
  also have "\<dots> = handed_out s"
    using Cons.prems(1) e(2) by (intro handed_out_step_eq) (simp_all add: waiting_def)
  finally show ?case by (simp add: run_Cons)
qed

lemma all_exited_remaining: "all_exited ws \<Longrightarrow> sum_list (map remaining ws) = 0"
proof (induction ws)
  case Nil
  then show ?case by simp
next
  case (Cons w ws)
  then show ?case by (cases w) (simp_all split: if_splits)
qed

lemma fired_once_step: "fired_once s \<Longrightarrow> fired_once (step s e)"
proof (cases e)
  case (Signal sig)
  assume "fired_once s"
  with Signal show ?thesis
    by (auto simp: fired_once_def step_def deliver_def split: listener_pc.splits)
next
  case ListenerStep
  assume "fired_once s"
  with ListenerStep show ?thesis
    by (auto simp: fired_once_def step_def listener_step_def split: listener_pc.splits list.splits)
next
  case (WorkerTrial i)
  assume "fired_once s"
  with WorkerTrial show ?thesis
    by (auto simp: fired_once_def step_def worker_trial_def split: listener_pc.splits worker.splits)
next
  case (WorkerReturn i)
  assume "fired_once s"
  with WorkerReturn show ?thesis
    by (auto simp: fired_once_def step_def worker_return_def split: listener_pc.splits worker.splits)
next
  case (WorkerError i)
  assume "fired_once s"
  with WorkerError show ?thesis
    by (auto simp: fired_once_def step_def worker_error_def split: listener_pc.splits worker.splits)
next
  case MainStep
  assume "fired_once s"
  with MainStep show ?thesis
    by (auto simp: fired_once_def step_def main_step_def split: listener_pc.splits main_pc.splits)
qed

lemma fired_once_run: "fired_once s \<Longrightarrow> fired_once (run s evs)"
  by (induction evs arbitrary: s) (simp_all add: run_Nil run_Cons fired_once_step)

lemma fired_once_init: "fired_once (init NumCPU)"
  by (simp add: fired_once_def init_def)

lemma fired_once_length: "fired_once s \<Longrightarrow> length (fired s) \<le> 1"
  by (simp add: fired_once_def split: listener_pc.splits)

lemma fired_at_most_once: "length (fired (run (init NumCPU) evs)) \<le> 1"
  by (rule fired_once_length [OF fired_once_run [OF fired_once_init]])

lemma no_signals_append: "no_signals (es @ fs) = (no_signals es \<and> no_signals fs)"
  by (induction es) simp_all

lemma no_signals_replicate: "\<not> is_signal e \<Longrightarrow> no_signals (replicate k e)"
  by (induction k) simp_all

lemma no_worker_errors_append:
  "no_worker_errors (es @ fs) = (no_worker_errors es \<and> no_worker_errors fs)"
  by (induction es) simp_all

lemma no_worker_errors_replicate: "\<not> is_worker_error e \<Longrightarrow> no_worker_errors (replicate k e)"
  by (induction k) simp_all

lemmas schedule_simps = no_signals_append no_signals_replicate no_worker_errors_append
  no_worker_errors_replicate

section \<open>The claims\<close>

subsection \<open>C1: the trials attempted and the budget\<close>

text \<open>
  C1, as the program has it. Each of the \<open>NumCPU - 1\<close> workers is started with its own
  share of \<open>1000 div (NumCPU - 1)\<close> evaluations, fixed when it is started; there is no
  counter that the workers share. In every run the trials attempted never exceed the sum
  of the shares, and that sum never exceeds 1000. In a run without a signal in which no
  worker's \<^verbatim>\<open>Optimize\<close> returns early with an error, once every worker has returned the
  trials attempted are exactly the sum of the shares.
\<close>

theorem attempted_trials_per_worker_share:
  "workers (init NumCPU) = replicate (nat (concurrency NumCPU)) (Optimizing (evaluateMax NumCPU)) \<and>
   attempted (run (init NumCPU) evs) \<le> nat (concurrency NumCPU) * evaluateMax NumCPU \<and>
   nat (concurrency NumCPU) * evaluateMax NumCPU \<le> 1000 \<and>
   (no_signals evs \<and> no_worker_errors evs \<and> all_exited (workers (run (init NumCPU) evs)) \<longrightarrow>
      attempted (run (init NumCPU) evs) = nat (concurrency NumCPU) * evaluateMax NumCPU)"
proof -
  let ?T = "nat (concurrency NumCPU) * evaluateMax NumCPU"
  let ?s = "run (init NumCPU) evs"
  have shares: "workers (init NumCPU) = replicate (nat (concurrency NumCPU)) (Optimizing (evaluateMax NumCPU))"
    by (simp add: init_def)
  have "attempted ?s \<le> handed_out ?s"
    by (simp add: handed_out_def)
  also have "\<dots> \<le> handed_out (init NumCPU)"
    by (rule handed_out_run)
  finally have bound: "attempted ?s \<le> ?T"
    by (simp add: handed_out_init)
  have exact: "attempted ?s = ?T"
    if "no_signals evs" and "no_worker_errors evs" and "all_exited (workers ?s)"
  proof -
    have "handed_out ?s = handed_out (init NumCPU)"
      using waiting_init that(1) that(2) by (rule handed_out_quiet_run)
    then have total: "handed_out ?s = ?T"
      by (simp only: handed_out_init)
    have "sum_list (map remaining (workers ?s)) = 0"
      using that(3) by (rule all_exited_remaining)
    then have "attempted ?s = handed_out ?s"
      by (simp add: handed_out_def)
    with total show ?thesis
      by (simp only:)
  qed
  from shares bound handed_out_le_1000 exact show ?thesis
    by blast
qed

theorem attempted_trials_per_worker_share_witness:
  "no_signals schedule_2 \<and> no_worker_errors schedule_2 \<and>
   all_exited (workers (run (init 2) schedule_2)) \<and>
   attempted (run (init 2) schedule_2) = 1000"
proof -
  have a: "no_signals schedule_2" "no_worker_errors schedule_2"
    by (simp_all add: schedule_2_def schedule_simps)
  have b: "all_exited (workers (run (init 2) schedule_2))"
    by (simp add: run_schedule_2)
  from attempted_trials_per_worker_share [of 2 schedule_2] a b
  have "attempted (run (init 2) schedule_2) = nat (concurrency 2) * evaluateMax 2"
    by blast
  with a b show ?thesis
    by (simp add: concurrency_def evaluateMax_def)
qed

text \<open>
  C1 as stated fails. On four processors three workers get 333 evaluations each: without
  any signal or error, when all three have returned, 999 trials were attempted, not 1000.
  On two processors the one worker whose \<^verbatim>\<open>Optimize\<close> returns an error after two
  trials leaves 998 evaluations that no other worker can claim.
\<close>

theorem attempted_trials_not_the_budget:
  "no_signals schedule_4 \<and> no_worker_errors schedule_4 \<and>
   all_exited (workers (run (init 4) schedule_4)) \<and>
   attempted (run (init 4) schedule_4) = 999 \<and>
   attempted (run (init 4) schedule_4) \<noteq> 1000 \<and>
   no_signals schedule_error \<and>
   all_exited (workers (run (init 2) schedule_error)) \<and>
   attempted (run (init 2) schedule_error) = 2"
proof -
  have "no_signals schedule_4" "no_worker_errors schedule_4" "no_signals schedule_error"
    by (simp_all add: schedule_4_def schedule_error_def schedule_simps)
  moreover have "all_exited (workers (run (init 4) schedule_4))"
    "attempted (run (init 4) schedule_4) = 999"
    by (simp_all add: run_schedule_4)
  moreover have "all_exited (workers (run (init 2) schedule_error))"
    "attempted (run (init 2) schedule_error) = 2"
    by (simp_all add: run_schedule_error)
  ultimately show ?thesis
    by simp
qed

subsection \<open>C2: the value and the attributes of a Complete trial\<close>

text \<open>
  C2, as the program has it. The decoder fills the loss from the key
  \<^verbatim>\<open>best_va_loss\<close>, not \<^verbatim>\<open>best_score\<close>, and the result of storing an attribute is
  discarded. A trial that ends Complete has as its value the loss decoded from its output
  file (zero when the file has no \<^verbatim>\<open>best_va_loss\<close>), and its attribute
  \<^verbatim>\<open>best_iteration\<close> is the decoded iteration in decimal whenever the storage accepts
  that write.
\<close>

theorem complete_trial_value_is_decoded_loss:
  assumes "rec_status (run_trial h n t) = Complete"
  shows "\<exists>lmd eta latent number jsonStr result.
           SuggestLogUniform t ''lambda'' (1 / 1000000) 1 = Inr lmd \<and>
           SuggestLogUniform t ''eta'' (1 / 1000000) 1 = Inr eta \<and>
           SuggestInt t ''latent'' 1 16 = Inr latent \<and>
           Number t = Inr number \<and>
           ReadFile (start_process h (command h lmd eta latent number)) (jsonMetaPath number) = Inr jsonStr \<and>
           Unmarshal jsonStr = Inr result \<and>
           rec_value (run_trial h n t) = Some (BestVALoss result) \<and>
           (attr_write t ''best_iteration'' (Sprintf_d (BestIteration result)) = None \<longrightarrow>
              rec_attributes (run_trial h n t) ''best_iteration'' = Some (Sprintf_d (BestIteration result)))"
  using assms
  by (auto simp: run_trial_def persist_def objective_def Let_def SetUserAttr_def
      split: sum.splits if_splits option.splits prod.splits)

text \<open>
  The scenario of the spec with the key the program reads: the file of trial 7 holds
  \<^verbatim>\<open>{"best_iteration": 42, "best_va_loss": 0.1834}\<close>.
\<close>

theorem complete_trial_value_is_decoded_loss_witness:
  "rec_status (run_trial (sample_host [] (Exited 1) False (Inr doc_best_va_loss)) 7 sample_trial) = Complete \<and>
   rec_value (run_trial (sample_host [] (Exited 1) False (Inr doc_best_va_loss)) 7 sample_trial)
     = Some (1834 / 10000) \<and>
   rec_attributes (run_trial (sample_host [] (Exited 1) False (Inr doc_best_va_loss)) 7 sample_trial)
     ''best_iteration'' = Some ''42''"
proof -
  let ?h = "sample_host [] (Exited 1) False (Inr doc_best_va_loss)"
  have c: "rec_status (run_trial ?h 7 sample_trial) = Complete"
    by (simp add: run_trial_def persist_def objective_def sample_simps)
  from complete_trial_value_is_decoded_loss [OF c] c show ?thesis
    by (auto simp: sample_simps)
qed

text \<open>
  C2 as stated fails. With the file of the spec's scenario,
  \<^verbatim>\<open>{"best_iteration": 42, "best_score": 0.1834}\<close>, the trial is Complete with the
  value 0. And when the storage refuses the attribute, the trial is Complete without it.
\<close>

theorem best_score_key_is_not_read:
  "rec_status (run_trial (sample_host [] (Exited 0) False (Inr doc_best_score)) 7 sample_trial) = Complete \<and>
   rec_value (run_trial (sample_host [] (Exited 0) False (Inr doc_best_score)) 7 sample_trial) = Some 0 \<and>
   rec_status (run_trial (sample_host [] (Exited 0) False (Inr doc_best_va_loss)) 7 refusing_trial) = Complete \<and>
   rec_attributes (run_trial (sample_host [] (Exited 0) False (Inr doc_best_va_loss)) 7 refusing_trial)
     ''best_iteration'' = None"
  by (simp add: run_trial_def persist_def objective_def sample_simps)

subsection \<open>C3: the wait of main when no signal is delivered\<close>

text \<open>
  C3 asks that, when the budget is used up and no signal is ever delivered,
  \<^verbatim>\<open>wg.Wait()\<close> returns and the best trial is reported. The wait group also counts the
  signal listener, and the listener leaves its receive only on a signal or when the channel
  is closed; \<^verbatim>\<open>close(sigch)\<close> is deferred, so it runs after the wait. In every run
  without a signal, whatever the workers do, \<^verbatim>\<open>main\<close> therefore stays at the wait,
  the listener stays at its receive and the counter stays above zero.
\<close>

theorem wait_never_returns_without_signal:
  assumes "no_signals evs"
  shows "main_at (run (init NumCPU) evs) = AtWait \<and>
         listener_at (run (init NumCPU) evs) = Receiving \<and>
         1 \<le> wg (run (init NumCPU) evs)"
proof -
  have "waiting (run (init NumCPU) evs)"
    using waiting_init assms by (rule waiting_run)
  then show ?thesis
    by (simp add: waiting_def)
qed

text \<open>
  Two processors: the one worker makes its 1000 trials and returns, no signal arrives, and
  \<^verbatim>\<open>main\<close> is still at the wait.
\<close>

theorem wait_never_returns_without_signal_witness:
  "no_signals schedule_2 \<and>
   all_exited (workers (run (init 2) schedule_2)) \<and>
   attempted (run (init 2) schedule_2) = 1000 \<and>
   main_at (run (init 2) schedule_2) = AtWait \<and>
   listener_at (run (init 2) schedule_2) = Receiving \<and>
   1 \<le> wg (run (init 2) schedule_2)"
proof -
  have a: "no_signals schedule_2"
    by (simp add: schedule_2_def schedule_simps)
  have b: "all_exited (workers (run (init 2) schedule_2))" "attempted (run (init 2) schedule_2) = 1000"
    by (simp_all add: run_schedule_2)
  from wait_never_returns_without_signal [OF a, of 2] a b show ?thesis
    by simp
qed

subsection \<open>C4: an evaluation whose context fires while the process runs\<close>

text \<open>
  C4, as the program has it. The command is made with \<^verbatim>\<open>exec.CommandContext\<close>, so
  the process is killed and \<^verbatim>\<open>cmd.Run()\<close> returns an error; \<^verbatim>\<open>objective\<close>
  discards that error and goes on as after any other run. It reads the scratch file and
  returns the decoded loss with a nil error, or -1 with an error when the file cannot be
  read, cannot be decoded or is all-zero. It has no outcome of its own for a cancelled
  evaluation.
\<close>

theorem cancelled_evaluation_reads_scratch_file:
  assumes "SuggestLogUniform t ''lambda'' (1 / 1000000) 1 = Inr lmd"
    and "SuggestLogUniform t ''eta'' (1 / 1000000) 1 = Inr eta"
    and "SuggestInt t ''latent'' 1 16 = Inr latent"
    and "Number t = Inr number"
    and "killed (start_process h (command h lmd eta latent number))"
  shows "Run_ctx (start_process h (command h lmd eta latent number)) = Some (Error ''signal: killed'') \<and>
         fst (objective h t) =
           (case ReadFile (start_process h (command h lmd eta latent number)) (jsonMetaPath number) of
              Inl err \<Rightarrow> (- 1, Some (Errorf_read_json err))
            | Inr jsonStr \<Rightarrow>
             (case Unmarshal jsonStr of
                Inl err \<Rightarrow> (- 1, Some (Errorf_read_json err))
              | Inr result \<Rightarrow>
                  if BestIteration result = 0 \<and> BestVALoss result = 0
                  then (- 1, Some (Error ''failed to open json meta''))
                  else (BestVALoss result, None)))"
  using assms
  by (simp add: objective_def Run_ctx_def Let_def split: sum.splits)

theorem cancelled_evaluation_reads_scratch_file_witness:
  "killed (start_process (sample_host [] (Exited 0) True (Inr doc_all_zero))
      (command (sample_host [] (Exited 0) True (Inr doc_all_zero)) (1 / 100) (1 / 10) 4 7)) \<and>
   Run_ctx (start_process (sample_host [] (Exited 0) True (Inr doc_all_zero))
      (command (sample_host [] (Exited 0) True (Inr doc_all_zero)) (1 / 100) (1 / 10) 4 7))
     = Some (Error ''signal: killed'') \<and>
   fst (objective (sample_host [] (Exited 0) True (Inr doc_all_zero)) sample_trial) =
     (- 1, Some (Error ''failed to open json meta''))"
proof -
  let ?h = "sample_host [] (Exited 0) True (Inr doc_all_zero)"
  have k: "killed (start_process ?h (command ?h (1 / 100) (1 / 10) 4 7))"
    by (simp add: killed_def sample_host_def)
  from cancelled_evaluation_reads_scratch_file [of sample_trial "1 / 100" "1 / 10" 4 7 ?h] k
  show ?thesis
    by (simp add: sample_simps)
qed

text \<open>
  C4 as stated fails. The context fires while the process of trial 7 runs and the process
  is killed. When the scratch file holds a record, \<^verbatim>\<open>objective\<close> returns its loss
  with a nil error; when the file is missing, it returns the error of reading it. So the
  file is read, and the call returns what any other evaluation returns.
\<close>

theorem cancelled_evaluation_returns_score:
  "killed (start_process (sample_host [] (Exited 0) True (Inr doc_best_va_loss))
      (command (sample_host [] (Exited 0) True (Inr doc_best_va_loss)) (1 / 100) (1 / 10) 4 7)) \<and>
   fst (objective (sample_host [] (Exited 0) True (Inr doc_best_va_loss)) sample_trial) =
     (1834 / 10000, None) \<and>
   killed (start_process (sample_host [] (Exited 0) True no_such_file)
      (command (sample_host [] (Exited 0) True no_such_file) (1 / 100) (1 / 10) 4 7)) \<and>
   fst (objective (sample_host [] (Exited 0) True no_such_file) sample_trial) =
     (- 1, Some (Error ''failed to read json: open ./data/optuna/ffm-meta-7.json: no such file or directory''))"
  by (simp add: objective_def sample_simps killed_def)

subsection \<open>C5: a process that exits non-zero after writing its record\<close>

text \<open>
  C5 holds for the \<^verbatim>\<open>objective\<close> functions that discard the result of
  \<^verbatim>\<open>cmd.Run()\<close> (src/main.go line 60, line 332, part_000 line 62; their comment says
  why), and it fails for the one at src/main.go lines 162-220, which returns that result
  (lines 194-196). The evaluator of trial 7 exits with status 1 and leaves
  \<^verbatim>\<open>{"best_iteration": 42, "best_va_loss": 0.1834}\<close>: the function of line 162
  returns -1 with the error of the exit status and the trial is Failed, while the function
  of line 29 returns the loss and the trial is Complete.
\<close>

theorem nonzero_exit_fails_the_trial_at_line_162:
  "fst (objective_162 (sample_host [] (Exited 1) False (Inr doc_best_va_loss)) sample_trial) =
     (- 1, Some (Error ''exit status 1'')) \<and>
   rec_status (run_trial_162 (sample_host [] (Exited 1) False (Inr doc_best_va_loss)) 7 sample_trial) = Failed \<and>
   fst (objective_29 (sample_host [] (Exited 1) False (Inr doc_best_va_loss)) sample_trial) =
     (1834 / 10000, None) \<and>
   rec_status (run_trial_29 (sample_host [] (Exited 1) False (Inr doc_best_va_loss)) 7 sample_trial) = Complete"
  by (simp add: objective_162_def objective_29_def run_trial_162_def run_trial_29_def persist_def Run_def
      sample_simps show_nat_1)

subsection \<open>C6: the all-zero record\<close>

text \<open>
  C6. When the suggestions and the trial number are given and the output file is read and
  decoded: if both the iteration and the loss of the decoded record are zero,
  \<^verbatim>\<open>objective\<close> returns -1 with the error "failed to open json meta" and the trial is
  recorded as Failed without a value; if one of the two is not zero, the rule does not
  fire: \<^verbatim>\<open>objective\<close> returns the loss with a nil error and the trial is Complete.
\<close>

theorem all_zero_sentinel:
  assumes "SuggestLogUniform t ''lambda'' (1 / 1000000) 1 = Inr lmd"
    and "SuggestLogUniform t ''eta'' (1 / 1000000) 1 = Inr eta"
    and "SuggestInt t ''latent'' 1 16 = Inr latent"
    and "Number t = Inr number"
    and "ReadFile (start_process h (command h lmd eta latent number)) (jsonMetaPath number) = Inr jsonStr"
    and "Unmarshal jsonStr = Inr result"
  shows "(BestIteration result = 0 \<and> BestVALoss result = 0 \<longrightarrow>
            fst (objective h t) = (- 1, Some (Error ''failed to open json meta'')) \<and>
            rec_status (run_trial h n t) = Failed \<and>
            rec_value (run_trial h n t) = None) \<and>
         (BestIteration result \<noteq> 0 \<or> BestVALoss result \<noteq> 0 \<longrightarrow>
            fst (objective h t) = (BestVALoss result, None) \<and>
            rec_status (run_trial h n t) = Complete \<and>
            rec_value (run_trial h n t) = Some (BestVALoss result))"
  using assms
  by (auto simp: run_trial_def persist_def objective_def Let_def split: prod.splits)

theorem all_zero_sentinel_witness:
  "fst (objective (sample_host [] (Exited 0) False (Inr doc_all_zero)) sample_trial) =
     (- 1, Some (Error ''failed to open json meta'')) \<and>
   rec_status (run_trial (sample_host [] (Exited 0) False (Inr doc_all_zero)) 7 sample_trial) = Failed \<and>
   rec_value (run_trial (sample_host [] (Exited 0) False (Inr doc_all_zero)) 7 sample_trial) = None \<and>
   fst (objective (sample_host [] (Exited 0) False (Inr doc_best_va_loss)) sample_trial) =
     (1834 / 10000, None) \<and>
   rec_status (run_trial (sample_host [] (Exited 0) False (Inr doc_best_va_loss)) 7 sample_trial) = Complete"
  using all_zero_sentinel [of sample_trial "1 / 100" "1 / 10" 4 7
      "sample_host [] (Exited 0) False (Inr doc_all_zero)"
      doc_all_zero "\<lparr>BestIteration = 0, BestVALoss = 0\<rparr>" 7]
    all_zero_sentinel [of sample_trial "1 / 100" "1 / 10" 4 7
      "sample_host [] (Exited 0) False (Inr doc_best_va_loss)"
      doc_best_va_loss "\<lparr>BestIteration = 42, BestVALoss = 1834 / 10000\<rparr>" 7]
  by (simp add: sample_simps)

subsection \<open>C7: the report when no trial is Complete\<close>

text \<open>
  C7 asks that a study without a Complete trial is reported as such. The report of part_000
  (lines 143-147) drops both errors and asserts \<^verbatim>\<open>params["lambda"].(float64)\<close> on a
  map without that key: it panics. The report of src/main.go lines 420-424 drops both
  errors and logs the value and the map it was handed as the result. The reports of
  src/main.go lines 121-132 and 257-268 check the error and end with it.
\<close>

theorem report_without_complete_trials:
  "report no_complete_trials = Panic ''interface conversion: interface {} is nil, not float64'' \<and>
   report_420 no_complete_trials = Info_result 0 Map.empty \<and>
   report_121 no_complete_trials = Fatal ''failed to get best value'' (Error ''trial not found'')"
  by (simp add: report_def report_420_def report_121_def no_complete_trials_def)

subsection \<open>C8: a second signal\<close>

text \<open>
  C8 asks that a second signal before the shutdown is complete causes no further
  cancellation and no panic. The listener receives once, so it calls \<^verbatim>\<open>cancel()\<close>
  at most once, for the first signal, which it logs; a later signal that finds the channel
  open is buffered or dropped.
\<close>

lemma listener_fires_at_most_once:
  "length (fired (run (init NumCPU) evs)) \<le> 1"
  by (rule fired_at_most_once)

lemma first_signal_cancels_and_is_logged:
  "fired (run (init NumCPU) [Signal sig, ListenerStep, ListenerStep, ListenerStep]) = [sig] \<and>
   logged (run (init NumCPU) [Signal sig, ListenerStep, ListenerStep, ListenerStep]) = [sig] \<and>
   ctx_done (run (init NumCPU) [Signal sig, ListenerStep, ListenerStep, ListenerStep])"
  by (simp add: init_def run_Cons run_Nil step_def deliver_def listener_step_def)

lemma signal_on_open_channel:
  "\<not> sigch_closed s \<Longrightarrow>
   fired (step s (Signal sig)) = fired s \<and> ctx_done (step s (Signal sig)) = ctx_done s \<and>
   panicked (step s (Signal sig)) = panicked s"
  by (simp add: step_def deliver_def)

lemma second_signal_before_close:
  "fired (run (init 2) schedule_early_second) = [SIGINT] \<and>
   logged (run (init 2) schedule_early_second) = [SIGINT] \<and>
   \<not> panicked (run (init 2) schedule_early_second)"
  by (simp add: run_schedule_early_second)

text \<open>
  C8 fails in the last part of the shutdown. The program closes the channel
  (\<^verbatim>\<open>defer close(sigch)\<close>, the first deferred call to run) without
  \<^verbatim>\<open>signal.Stop\<close>, and \<^verbatim>\<open>cancel()\<close> and \<^verbatim>\<open>db.Close()\<close> still follow. A second
  signal delivered then is relayed to the closed channel, and the program panics.
\<close>

theorem second_signal_after_close_panics:
  "main_at (run (init 2) schedule_two_signals) = AtDeferCancel \<and>
   fired (run (init 2) schedule_two_signals) = [SIGINT] \<and>
   panicked (run (init 2) schedule_two_signals)"
  by (simp add: run_schedule_two_signals)

subsection \<open>C9: the path of the evaluator\<close>

text \<open>
  C9, for the \<^verbatim>\<open>objective\<close> of src/main.go lines 162-220, the one that reads
  \<^verbatim>\<open>LIBFFM_CLI\<close>. When the two suggestions and the trial number are given, the
  function starts one command line, and what it returns is read off that run and the
  scratch file. The first word of the command line is the value of \<^verbatim>\<open>LIBFFM_CLI\<close>
  when that is not empty and \<^verbatim>\<open>./ffm-train\<close> otherwise; the other words are the
  fixed arguments, the two formatted parameters and the path of the scratch file, and they
  are the same whatever the environment holds.
\<close>

theorem libffm_cli_override:
  assumes "SuggestLogUniform t ''lambda'' (1 / 1000000) 1 = Inr lmd"
    and "SuggestLogUniform t ''eta'' (1 / 1000000) 1 = Inr eta"
    and "Number t = Inr number"
  shows "objective_162 (h\<lparr>Getenv := g\<rparr>) t =
           (let ev = start_process h
                ((if g ''LIBFFM_CLI'' = [] then ''./ffm-train'' else g ''LIBFFM_CLI'') #
                 [''-p'', ''./data/valid2.txt'',
                  ''--auto-stop'', ''--auto-stop-threshold'', ''3'',
                  ''-l'', Sprintf_f h lmd,
                  ''-r'', Sprintf_f h eta,
                  ''-k'', ''4'',
                  ''-t'', ''500'',
                  ''--json-meta'', getMetaPath number,
                  ''./data/train2.txt''])
            in case Run ev of
                 Some err \<Rightarrow> ((- 1, Some err), t)
               | None \<Rightarrow>
              (case ReadFile ev (getMetaPath number) of
                 Inl err \<Rightarrow> ((- 1, Some err), t)
               | Inr jsonStr \<Rightarrow>
              (case Unmarshal jsonStr of
                 Inl err \<Rightarrow> ((- 1, Some err), t)
               | Inr result \<Rightarrow>
                 if BestIteration result = 0 \<and> BestVALoss result = 0
                 then ((- 1, Some (Error ''failed to open json meta'')), t)
                 else
                   (case SetUserAttr ''best_iteration'' (Sprintf_d (BestIteration result)) t of
                      (Some err, t1) \<Rightarrow> ((- 1, Some err), t1)
                    | (None, t1) \<Rightarrow> ((BestVALoss result, None), t1))))) \<and>
         hd (command_162 (h\<lparr>Getenv := g\<rparr>) lmd eta number) =
           (if g ''LIBFFM_CLI'' = [] then ''./ffm-train'' else g ''LIBFFM_CLI'') \<and>
         tl (command_162 (h\<lparr>Getenv := g\<rparr>) lmd eta number) = tl (command_162 h lmd eta number)"
  using assms
  by (auto simp: objective_162_def command_162_def libffm_def Let_def
      split: option.splits sum.splits prod.splits)

text \<open>
  On the machine where the evaluator is installed at \<^verbatim>\<open>/opt/libffm/ffm-train\<close> only:
  with the override set to that path the trial gets its loss; with the override unset, or
  set to another path, the command that is started is not the installed one.
\<close>

theorem libffm_cli_override_witness:
  "fst (objective_162 (override_host ''/opt/libffm/ffm-train'') sample_trial) = (1834 / 10000, None) \<and>
   fst (objective_162 (override_host []) sample_trial) = (- 1, Some (Error ''exec: executable file not found'')) \<and>
   fst (objective_162 (override_host ''/usr/bin/false'') sample_trial) = (- 1, Some (Error ''exec: executable file not found''))"
proof -
  have h: "override_host cli = (override_host [])\<lparr>Getenv := (\<lambda>name. if name = ''LIBFFM_CLI'' then cli else [])\<rparr>" for cli
    by (simp add: override_host_def)
  have s: "SuggestLogUniform sample_trial ''lambda'' (1 / 1000000) 1 = Inr (1 / 100)"
    "SuggestLogUniform sample_trial ''eta'' (1 / 1000000) 1 = Inr (1 / 10)"
    "Number sample_trial = Inr 7"
    by (simp_all add: sample_trial_def)
  note th = libffm_cli_override [OF s, where h = "override_host []"]
  have a: "fst (objective_162 (override_host ''/opt/libffm/ffm-train'') sample_trial) = (1834 / 10000, None)"
    by (subst h, subst th [THEN conjunct1])
       (simp add: override_host_def installed_evaluation_def Run_def sample_simps)
  have b: "fst (objective_162 (override_host []) sample_trial) = (- 1, Some (Error ''exec: executable file not found''))"
    by (subst h, subst th [THEN conjunct1])
       (simp add: override_host_def missing_evaluation_def Run_def sample_simps)
  have c: "fst (objective_162 (override_host ''/usr/bin/false'') sample_trial) = (- 1, Some (Error ''exec: executable file not found''))"
    by (subst h, subst th [THEN conjunct1])
       (simp add: override_host_def missing_evaluation_def Run_def sample_simps)
  from a b c show ?thesis by simp
qed

text \<open>
  The other \<^verbatim>\<open>objective\<close> functions (src/main.go lines 29-83 and 295-355,
  part_000) do not read the environment: they always start \<^verbatim>\<open>./ffm-train\<close>.
\<close>

lemma objective_ignores_environment: "objective (h\<lparr>Getenv := g\<rparr>) t = objective h t"
  by (simp add: objective_def command_def Let_def split: sum.splits)

lemma objective_29_ignores_environment: "objective_29 (h\<lparr>Getenv := g\<rparr>) t = objective_29 h t"
  by (simp add: objective_29_def command_29_def Let_def split: sum.splits)

lemma command_starts_ffm_train:
  "hd (command h lmd eta latent number) = ''./ffm-train'' \<and>
   hd (command_29 h lmd eta number) = ''./ffm-train''"
  by (simp add: command_def command_29_def)

subsection \<open>C10: the error paths of objective\<close>

text \<open>The error paths one by one, in the order of the function's text.\<close>

lemma objective_lambda_failure:
  "SuggestLogUniform t ''lambda'' (1 / 1000000) 1 = Inl err \<Longrightarrow> objective h t = ((- 1, Some err), t)"
  by (simp add: objective_def)

lemma objective_eta_failure:
  "SuggestLogUniform t ''lambda'' (1 / 1000000) 1 = Inr lmd \<Longrightarrow>
   SuggestLogUniform t ''eta'' (1 / 1000000) 1 = Inl err \<Longrightarrow> objective h t = ((- 1, Some err), t)"
  by (simp add: objective_def)

lemma objective_latent_failure:
  "SuggestLogUniform t ''lambda'' (1 / 1000000) 1 = Inr lmd \<Longrightarrow>
   SuggestLogUniform t ''eta'' (1 / 1000000) 1 = Inr eta \<Longrightarrow>
   SuggestInt t ''latent'' 1 16 = Inl err \<Longrightarrow> objective h t = ((- 1, Some err), t)"
  by (simp add: objective_def)

lemma objective_number_failure:
  "SuggestLogUniform t ''lambda'' (1 / 1000000) 1 = Inr lmd \<Longrightarrow>
   SuggestLogUniform t ''eta'' (1 / 1000000) 1 = Inr eta \<Longrightarrow>
   SuggestInt t ''latent'' 1 16 = Inr latent \<Longrightarrow>
   Number t = Inl err \<Longrightarrow> objective h t = ((- 1, Some err), t)"
  by (simp add: objective_def)

lemma objective_read_failure:
  "SuggestLogUniform t ''lambda'' (1 / 1000000) 1 = Inr lmd \<Longrightarrow>
   SuggestLogUniform t ''eta'' (1 / 1000000) 1 = Inr eta \<Longrightarrow>
   SuggestInt t ''latent'' 1 16 = Inr latent \<Longrightarrow>
   Number t = Inr number \<Longrightarrow>
   ReadFile (start_process h (command h lmd eta latent number)) (jsonMetaPath number) = Inl err \<Longrightarrow>
   objective h t = ((- 1, Some (Errorf_read_json err)), t)"
  by (simp add: objective_def Let_def)

lemma objective_decode_failure:
  "SuggestLogUniform t ''lambda'' (1 / 1000000) 1 = Inr lmd \<Longrightarrow>
   SuggestLogUniform t ''eta'' (1 / 1000000) 1 = Inr eta \<Longrightarrow>
   SuggestInt t ''latent'' 1 16 = Inr latent \<Longrightarrow>
   Number t = Inr number \<Longrightarrow>
   ReadFile (start_process h (command h lmd eta latent number)) (jsonMetaPath number) = Inr jsonStr \<Longrightarrow>
   Unmarshal jsonStr = Inl err \<Longrightarrow>
   objective h t = ((- 1, Some (Errorf_read_json err)), t)"
  by (simp add: objective_def Let_def)

text \<open>
  C10. \<^verbatim>\<open>objective\<close> returns a nil error exactly when the three suggestions and the
  trial number are given, the scratch file is read and decoded, and the decoded record is
  not all-zero. Whenever that is so, it returns the decoded loss together with the nil
  error. Whenever it returns an error, the score is -1.
\<close>

theorem objective_error_paths:
  "(snd (fst (objective h t)) = None \<longleftrightarrow>
     (\<exists>lmd eta latent number jsonStr result.
        SuggestLogUniform t ''lambda'' (1 / 1000000) 1 = Inr lmd \<and>
        SuggestLogUniform t ''eta'' (1 / 1000000) 1 = Inr eta \<and>
        SuggestInt t ''latent'' 1 16 = Inr latent \<and>
        Number t = Inr number \<and>
        ReadFile (start_process h (command h lmd eta latent number)) (jsonMetaPath number) = Inr jsonStr \<and>
        Unmarshal jsonStr = Inr result \<and>
        \<not> (BestIteration result = 0 \<and> BestVALoss result = 0))) \<and>
   (\<forall>lmd eta latent number jsonStr result.
        SuggestLogUniform t ''lambda'' (1 / 1000000) 1 = Inr lmd \<and>
        SuggestLogUniform t ''eta'' (1 / 1000000) 1 = Inr eta \<and>
        SuggestInt t ''latent'' 1 16 = Inr latent \<and>
        Number t = Inr number \<and>
        ReadFile (start_process h (command h lmd eta latent number)) (jsonMetaPath number) = Inr jsonStr \<and>
        Unmarshal jsonStr = Inr result \<and>
        \<not> (BestIteration result = 0 \<and> BestVALoss result = 0) \<longrightarrow>
        fst (objective h t) = (BestVALoss result, None)) \<and>
   (snd (fst (objective h t)) \<noteq> None \<longrightarrow> fst (fst (objective h t)) = - 1)"
  by (auto simp: objective_def Let_def split: sum.splits if_splits)

text \<open>
  Trial 7 with a missing scratch file, with the record
  \<^verbatim>\<open>{"best_iteration": 42, "best_va_loss": 0.1834}\<close> after an exit with status 1, and
  with the all-zero record.
\<close>

theorem objective_error_paths_witness:
  "snd (fst (objective (sample_host [] (Exited 0) False no_such_file) sample_trial)) \<noteq> None \<and>
   fst (fst (objective (sample_host [] (Exited 0) False no_such_file) sample_trial)) = - 1 \<and>
   fst (objective (sample_host [] (Exited 1) False (Inr doc_best_va_loss)) sample_trial) = (1834 / 10000, None) \<and>
   snd (fst (objective (sample_host [] (Exited 0) False (Inr doc_all_zero)) sample_trial)) \<noteq> None \<and>
   fst (fst (objective (sample_host [] (Exited 0) False (Inr doc_all_zero)) sample_trial)) = - 1"
proof -
  let ?h = "sample_host [] (Exited 1) False (Inr doc_best_va_loss)"
  from objective_error_paths [of "sample_host [] (Exited 0) False no_such_file" sample_trial]
  have a: "snd (fst (objective (sample_host [] (Exited 0) False no_such_file) sample_trial)) \<noteq> None \<and>
           fst (fst (objective (sample_host [] (Exited 0) False no_such_file) sample_trial)) = - 1"
    by (simp add: sample_simps)
  from objective_error_paths [of "sample_host [] (Exited 0) False (Inr doc_all_zero)" sample_trial]
  have z: "snd (fst (objective (sample_host [] (Exited 0) False (Inr doc_all_zero)) sample_trial)) \<noteq> None \<and>
           fst (fst (objective (sample_host [] (Exited 0) False (Inr doc_all_zero)) sample_trial)) = - 1"
    by (simp add: sample_simps)
  from objective_error_paths [of ?h sample_trial, THEN conjunct2, THEN conjunct1, rule_format,
      of "1 / 100" "1 / 10" 4 7 doc_best_va_loss "\<lparr>BestIteration = 42, BestVALoss = 1834 / 10000\<rparr>"]
  have b: "fst (objective ?h sample_trial) = (1834 / 10000, None)"
    by (simp add: sample_simps)
  from a b z show ?thesis by simp
qed

end
